theory Spec2Isabelle
  imports Main "HOL-Library.Sublist" "HOL-Library.Monad_Syntax"
begin

section \<open>Python strings\<close>

text \<open>
  A Python \<open>str\<close> is modelled as a \<^typ>\<open>string\<close> whose characters are the code points
  U+0000 to U+00FF. On this range \<open>str.isdigit\<close> holds for the ASCII digits and for the
  superscripts U+00B2, U+00B3 and U+00B9, which \<open>int()\<close> does not accept, and
  \<open>str.lower\<close> moves the capital letters A-Z, U+00C0-U+00D6 and U+00D8-U+00DE by 32.
\<close>

definition isdecimal :: "char \<Rightarrow> bool" where
  "isdecimal c = (48 \<le> (of_char c :: nat) \<and> (of_char c :: nat) \<le> 57)"

definition isdigit :: "char \<Rightarrow> bool" where
  "isdigit c = (isdecimal c \<or> (of_char c :: nat) \<in> {178, 179, 185})"

definition lower_char :: "char \<Rightarrow> char" where
  "lower_char c =
     (let n = (of_char c :: nat)
      in if (65 \<le> n \<and> n \<le> 90) \<or> (192 \<le> n \<and> n \<le> 214) \<or> (216 \<le> n \<and> n \<le> 222)
         then char_of (n + 32) else c)"

definition lower :: "string \<Rightarrow> string" where
  "lower s = map lower_char s"

text \<open>\<open>sub in s\<close> on strings: \<open>sub\<close> occurs in \<open>s\<close> as a contiguous block.\<close>

definition py_in :: "string \<Rightarrow> string \<Rightarrow> bool" where
  "py_in sub s = sublist sub s"

text \<open>\<open>s.split('\n')\<close>: the pieces between line feeds; never the empty list.\<close>

fun split_lines :: "string \<Rightarrow> string list" where
  "split_lines [] = [[]]"
| "split_lines (c # cs) =
     (if c = CHR 0x0A then [] # split_lines cs
      else (case split_lines cs of [] \<Rightarrow> [[c]] | l # ls \<Rightarrow> (c # l) # ls))"

text \<open>\<open>xs[:n]\<close> for an integer \<open>n\<close>; a negative \<open>n\<close> counts from the end.\<close>

definition slice_to :: "'a list \<Rightarrow> int \<Rightarrow> 'a list" where
  "slice_to xs n = (if 0 \<le> n then take (nat n) xs else take (nat (int (length xs) + n)) xs)"

definition digit_value :: "char \<Rightarrow> int" where
  "digit_value c = int (of_char c) - 48"

definition digits_value :: "string \<Rightarrow> int" where
  "digits_value ds = foldl (\<lambda>a c. 10 * a + digit_value c) 0 ds"

text \<open>
  \<open>int(ds)\<close> for a string \<open>ds\<close> of \<open>isdigit\<close> characters; \<open>None\<close> stands for the
  \<open>ValueError\<close> raised on the empty string, on a superscript digit, and on more digits
  than the interpreter's \<open>int_max_str_digits\<close> allows (0: no limit).
\<close>

definition int_of_digits :: "nat \<Rightarrow> string \<Rightarrow> int option" where
  "int_of_digits max_str_digits ds =
     (if ds = [] \<or> \<not> list_all isdecimal ds then None
      else if 0 < max_str_digits \<and> max_str_digits < length ds then None
      else Some (digits_value ds))"

section \<open>Score extraction\<close>

text \<open>
  Lines 288-295 of \<open>track_leads_function\<close>: the default is \<open>min_score\<close>; when the label
  occurs, the first line holding it is reduced to its digit characters and read as an
  integer, and any exception on the way leaves the default.
\<close>

definition parse_score :: "nat \<Rightarrow> int \<Rightarrow> string \<Rightarrow> int" where
  "parse_score max_str_digits min_score response_text =
     (if py_in ''Score:'' response_text then
        (case filter (py_in ''Score:'') (split_lines response_text) of
           [] \<Rightarrow> min_score
         | score_line # _ \<Rightarrow>
             (case int_of_digits max_str_digits (filter isdigit score_line) of
                None \<Rightarrow> min_score
              | Some n \<Rightarrow> n))
      else min_score)"

section \<open>Data model\<close>

text \<open>
  A submission as PRAW hands it over. Its \<open>id\<close> identifies it; for every other attribute
  \<open>None\<close> means that reading the attribute raises \<open>AttributeError\<close> (for \<open>selftext\<close>:
  that \<open>hasattr\<close> is false). The author of a deleted account is Python's \<open>None\<close>, the
  inner option of \<open>s_author\<close>.
\<close>

record submission =
  s_id :: string
  s_title :: "string option"
  s_selftext :: "string option"
  s_author :: "string option option"
  s_permalink :: "string option"
  s_created_utc :: "int option"
  s_score :: "int option"
  s_num_comments :: "int option"

text \<open>The dictionary \<open>post_info\<close>; the keys \<open>ai_score\<close> and \<open>ai_analysis\<close> may be absent.\<close>

record post_info =
  title :: string
  url :: string
  author :: string
  subreddit :: string
  date :: string
  score :: int
  num_comments :: int
  content_preview :: string
  matched_keywords :: bool
  ai_analyzed :: bool
  is_lead :: bool
  ai_score :: "int option"
  ai_analysis :: "string option"

text \<open>The dictionary \<open>lead_data\<close>.\<close>

record lead =
  username :: string
  post_title :: string
  post_url :: string
  post_content :: string
  lead_subreddit :: string
  relevance_score :: int
  identified_needs :: "string list"
  post_date :: string
  lead_ai_analysis :: string

record stats =
  total_posts :: nat
  posts_analyzed :: nat
  leads_found :: nat

section \<open>The outside world\<close>

datatype strategy = New | Top | Hot

text \<open>Every request sent to Reddit or to the scoring agent, in order.\<close>

datatype call = Listing string strategy int | AgentRun string

text \<open>The object returned by \<open>Agent.run\<close>; its \<open>content\<close> may be \<open>None\<close>.\<close>

datatype run_output = RunOutput (content: "string option")

text \<open>
  The services answer as functions of the requests made so far, so two equal requests
  may be answered differently. A result \<open>None\<close> means that the call raised.
  \<^item> \<open>subreddit_obj\<close>: lines 169-180 (obtaining the client and the subreddit handle)
    complete without an exception;
  \<^item> \<open>listing\<close>: \<open>list(subreddit_obj.new(limit=n))\<close>, and likewise \<open>top\<close> and \<open>hot\<close>;
  \<^item> \<open>agent_run\<close>: \<open>lead_tracker_agent.run(prompt)\<close>, which may return \<open>None\<close>;
  \<^item> \<open>strftime_date\<close>: \<open>datetime.fromtimestamp(t).strftime("%Y-%m-%d")\<close>;
  \<^item> \<open>int_max_str_digits\<close>: the interpreter's limit on \<open>int()\<close> of a string.
\<close>

record env =
  subreddit_obj :: "string \<Rightarrow> bool"
  listing :: "call list \<Rightarrow> string \<Rightarrow> strategy \<Rightarrow> int \<Rightarrow> submission list option"
  agent_run :: "call list \<Rightarrow> string \<Rightarrow> run_output option option"
  strftime_date :: "int \<Rightarrow> string option"
  int_max_str_digits :: nat

text \<open>What \<open>track_leads_function\<close> accumulates, and the requests it has made.\<close>

record run_state =
  all_leads :: "lead list"
  all_posts_explored :: "post_info list"
  stats :: stats
  calls :: "call list"

section \<open>Collecting the posts of one subreddit\<close>

definition fetch ::
  "env \<Rightarrow> call list \<Rightarrow> string \<Rightarrow> strategy \<Rightarrow> int \<Rightarrow> submission list option \<times> call list" where
  "fetch env tr sr strat lim = (listing env tr sr strat lim, tr @ [Listing sr strat lim])"

text \<open>\<open>[p for p in posts if p.id not in existing_ids]\<close>\<close>

definition unique_posts :: "submission list \<Rightarrow> submission list \<Rightarrow> submission list" where
  "unique_posts existing posts = filter (\<lambda>p. s_id p \<notin> set (map s_id existing)) posts"

text \<open>Strategy 1 (lines 186-191): a failed query leaves the list empty.\<close>

definition stage_new ::
  "env \<Rightarrow> call list \<Rightarrow> string \<Rightarrow> int \<Rightarrow> submission list \<times> call list" where
  "stage_new env tr sr limit_per_subreddit =
     (case fetch env tr sr New (min limit_per_subreddit 1000) of
        (None, tr') \<Rightarrow> ([], tr')
      | (Some new_posts, tr') \<Rightarrow> (new_posts, tr'))"

text \<open>Strategies 2 and 3 (lines 196-204 and 208-215): a failed query adds nothing.\<close>

definition stage_more ::
  "env \<Rightarrow> string \<Rightarrow> strategy \<Rightarrow> int \<Rightarrow> submission list \<times> call list
     \<Rightarrow> submission list \<times> call list" where
  "stage_more env sr strat limit_per_subreddit acc =
     (case fetch env (snd acc) sr strat
             (min (limit_per_subreddit - int (length (fst acc))) 1000) of
        (None, tr') \<Rightarrow> (fst acc, tr')
      | (Some posts, tr') \<Rightarrow> (fst acc @ unique_posts (fst acc) posts, tr'))"

text \<open>Lines 183-217: the three strategies and the final slice.\<close>

definition collect ::
  "env \<Rightarrow> call list \<Rightarrow> string \<Rightarrow> int \<Rightarrow> submission list \<times> call list" where
  "collect env tr sr limit_per_subreddit =
     (let s1 = stage_new env tr sr limit_per_subreddit;
          s3 = (if limit_per_subreddit > 1000 then
                  (let s2 = stage_more env sr Top limit_per_subreddit s1
                   in if int (length (fst s2)) < limit_per_subreddit
                      then stage_more env sr Hot limit_per_subreddit s2 else s2)
                else s1)
      in (slice_to (fst s3) limit_per_subreddit, snd s3))"

section \<open>Analysing one post\<close>

text \<open>\<open>str(post.author) if post.author else "N/A"\<close>\<close>

definition author_str :: "string option \<Rightarrow> string" where
  "author_str a = (case a of None \<Rightarrow> ''N/A'' | Some name \<Rightarrow> name)"

text \<open>
  Lines 225-241: the lowered title and body and the fresh \<open>post_info\<close>. The result is
  \<open>None\<close> when one of the attribute reads or the date conversion raises; nothing has been
  changed by then.
\<close>

definition build_post_info ::
  "env \<Rightarrow> string \<Rightarrow> submission \<Rightarrow> (string \<times> string \<times> post_info) option" where
  "build_post_info env sr post = do {
     t \<leftarrow> s_title post;
     pl \<leftarrow> s_permalink post;
     a \<leftarrow> s_author post;
     cu \<leftarrow> s_created_utc post;
     d \<leftarrow> strftime_date env cu;
     sc \<leftarrow> s_score post;
     nc \<leftarrow> s_num_comments post;
     Some (lower t,
           (case s_selftext post of Some body \<Rightarrow> lower body | None \<Rightarrow> []),
           \<lparr>title = t, url = ''https://reddit.com'' @ pl, author = author_str a,
            subreddit = sr, date = d, score = sc, num_comments = nc,
            content_preview = (case s_selftext post of Some body \<Rightarrow> take 200 body | None \<Rightarrow> []),
            matched_keywords = False, ai_analyzed = False, is_lead = False,
            ai_score = None, ai_analysis = None\<rparr>)
   }"

text \<open>\<open>kw.lower() in title or kw.lower() in content\<close>, on the lowered title and body.\<close>

definition keyword_hit :: "string \<Rightarrow> string \<Rightarrow> string \<Rightarrow> bool" where
  "keyword_hit title_l content_l kw = (py_in (lower kw) title_l \<or> py_in (lower kw) content_l)"

definition join_lines :: "string list \<Rightarrow> string" where
  "join_lines ls = concat (map (\<lambda>l. l @ [CHR 0x0A]) ls)"

text \<open>Lines 250-279: the prompt, an f-string; \<open>None\<close> when an attribute read raises.\<close>

definition analysis_prompt :: "string \<Rightarrow> submission \<Rightarrow> string option" where
  "analysis_prompt sr post = do {
     t \<leftarrow> s_title post;
     a \<leftarrow> s_author post;
     Some ([CHR 0x0A] @ join_lines
       [''ANALYZE THIS POST FOR B2B LEAD QUALIFICATION:'',
        [],
        ''**Post Details:**'',
        ''Title: '' @ t,
        ''Content: '' @ (case s_selftext post of Some body \<Rightarrow> take 600 body
                                                 | None \<Rightarrow> ''No content''),
        ''Subreddit: r/'' @ sr,
        ''Author: u/'' @ author_str a,
        [],
        ''**Your Task:**'',
        ''Determine if this is a potential B2B customer for business intelligence/analytics software.'',
        [],
        ''**Analysis Required:**'',
        ''1. Is this a BUSINESS need or personal/student project?'',
        ''2. Are they a decision-maker or influencer in their organization?'',
        ''3. What specific BI/analytics pain points do they have?'',
        ''4. Do they mention budget, team size, or enterprise requirements?'',
        ''5. What red flags exist (if any)?'',
        [],
        ''**Provide Output in This Format:**'',
        ''Score: [1-10 based on scoring guide]'',
        ''Business Context: [Is this business or personal? Evidence?]'',
        ''Decision Authority: [Likely decision-maker? Why/why not?]'',
        ''Pain Points: [Specific BI/analytics challenges mentioned]'',
        ''Budget Indicators: [Any mention of budget, paid tools, or willingness to invest?]'',
        ''Red Flags: [Student/hobby/tutorial-seeking indicators?]'',
        ''Recommendation: [Should we pursue this lead? Why?]'',
        [],
        ''Be critical and specific. We only want real business opportunities.''])
   }"

text \<open>
  The dictionary built at lines 304-314 and again at lines 318-328, for a given score
  and rationale; \<open>None\<close> when an attribute read or the date conversion raises.
\<close>

definition lead_data ::
  "env \<Rightarrow> string list \<Rightarrow> string \<Rightarrow> submission \<Rightarrow> string \<Rightarrow> string \<Rightarrow> int \<Rightarrow> string
     \<Rightarrow> lead option" where
  "lead_data env keywords sr post title_l content_l sc analysis = do {
     a \<leftarrow> s_author post;
     t \<leftarrow> s_title post;
     pl \<leftarrow> s_permalink post;
     cu \<leftarrow> s_created_utc post;
     d \<leftarrow> strftime_date env cu;
     Some \<lparr>username = author_str a, post_title = t, post_url = ''https://reddit.com'' @ pl,
           post_content = (case s_selftext post of Some body \<Rightarrow> take 300 body | None \<Rightarrow> []),
           lead_subreddit = sr, relevance_score = sc,
           identified_needs = filter (keyword_hit title_l content_l) keywords,
           post_date = d, lead_ai_analysis = analysis\<rparr>
   }"

text \<open>
  \<open>if response and response.content\<close>: the text \<open>str(response.content)\<close> when the test
  passes, \<open>None\<close> when the response or its content is \<open>None\<close> or the content is empty.
\<close>

definition response_text_of :: "run_output option \<Rightarrow> string option" where
  "response_text_of response =
     (case response of
        None \<Rightarrow> None
      | Some r \<Rightarrow> (case content r of
                    None \<Rightarrow> None
                  | Some c \<Rightarrow> if c = [] then None else Some c))"

text \<open>How a block of statements ends: by reaching its end or by an exception.\<close>

datatype completion = Completed | Raised

definition add_posts_analyzed :: "run_state \<Rightarrow> run_state" where
  "add_posts_analyzed st = st\<lparr>stats := (stats st)\<lparr>posts_analyzed := posts_analyzed (stats st) + 1\<rparr>\<rparr>"

definition add_leads_found :: "run_state \<Rightarrow> run_state" where
  "add_leads_found st = st\<lparr>stats := (stats st)\<lparr>leads_found := leads_found (stats st) + 1\<rparr>\<rparr>"

text \<open>
  The body of the inner \<open>try\<close> (lines 282-315), with the state and the \<open>post_info\<close> as
  they are when the block is left.
\<close>

definition score_post ::
  "env \<Rightarrow> string list \<Rightarrow> int \<Rightarrow> string \<Rightarrow> submission \<Rightarrow> string \<Rightarrow> string \<Rightarrow> string
     \<Rightarrow> run_state \<Rightarrow> post_info \<Rightarrow> completion \<times> run_state \<times> post_info" where
  "score_post env keywords min_score sr post title_l content_l prompt st info =
     (let info1 = info\<lparr>ai_analyzed := True\<rparr>;
          st1 = st\<lparr>calls := calls st @ [AgentRun prompt]\<rparr>
      in case agent_run env (calls st) prompt of
           None \<Rightarrow> (Raised, st1, info1)
         | Some response \<Rightarrow>
             (case response_text_of response of
                None \<Rightarrow> (Completed, st1, info1)
              | Some response_text \<Rightarrow>
                  (let sc = parse_score (int_max_str_digits env) min_score response_text;
                       info2 = info1\<lparr>ai_score := Some sc,
                                     ai_analysis := Some (take 400 response_text)\<rparr>
                   in if sc \<ge> min_score then
                        (let info3 = info2\<lparr>is_lead := True\<rparr>;
                             st2 = add_leads_found st1
                         in case lead_data env keywords sr post title_l content_l sc
                                   (take 400 response_text) of
                              None \<Rightarrow> (Raised, st2, info3)
                            | Some ld \<Rightarrow>
                                (Completed, st2\<lparr>all_leads := all_leads st2 @ [ld]\<rparr>, info3))
                      else (Completed, st1, info2))))"

text \<open>
  The body of the outer \<open>try\<close> (lines 225-332) for one post: the state when the body is
  left, and whether it was left by an exception.
\<close>

definition analyze_post ::
  "env \<Rightarrow> string list \<Rightarrow> int \<Rightarrow> string \<Rightarrow> run_state \<Rightarrow> submission
     \<Rightarrow> completion \<times> run_state" where
  "analyze_post env keywords min_score sr st post =
     (case build_post_info env sr post of
        None \<Rightarrow> (Raised, st)
      | Some (title_l, content_l, info0) \<Rightarrow>
          (let matches_keywords = list_ex (keyword_hit title_l content_l) keywords;
               info = info0\<lparr>matched_keywords := matches_keywords\<rparr>
           in if matches_keywords then
                (let st1 = add_posts_analyzed st
                 in case analysis_prompt sr post of
                      None \<Rightarrow> (Raised, st1)
                    | Some prompt \<Rightarrow>
                        (case score_post env keywords min_score sr post title_l content_l
                                prompt st1 info of
                           (Completed, st2, info') \<Rightarrow>
                             (Completed,
                              st2\<lparr>all_posts_explored := all_posts_explored st2 @ [info']\<rparr>)
                         | (Raised, st2, info') \<Rightarrow>
                             (case lead_data env keywords sr post title_l content_l min_score
                                     ''Keyword match - agent analysis unavailable'' of
                                None \<Rightarrow> (Raised, st2)
                              | Some ld \<Rightarrow>
                                  (Completed,
                                   st2\<lparr>all_leads := all_leads st2 @ [ld],
                                       all_posts_explored :=
                                         all_posts_explored st2 @ [info']\<rparr>))))
              else (Completed, st\<lparr>all_posts_explored := all_posts_explored st @ [info]\<rparr>)))"

text \<open>One turn of the loop over the posts: \<open>except Exception: continue\<close> (lines 334-335).\<close>

definition process_post ::
  "env \<Rightarrow> string list \<Rightarrow> int \<Rightarrow> string \<Rightarrow> run_state \<Rightarrow> submission \<Rightarrow> run_state" where
  "process_post env keywords min_score sr st post =
     snd (analyze_post env keywords min_score sr st post)"

section \<open>The run\<close>

text \<open>
  One turn of the loop over the subreddits (lines 164-341). When the handle cannot be
  obtained the subreddit is given up with a warning.
\<close>

definition process_subreddit ::
  "env \<Rightarrow> string list \<Rightarrow> int \<Rightarrow> int \<Rightarrow> run_state \<Rightarrow> string \<Rightarrow> run_state" where
  "process_subreddit env keywords limit_per_subreddit min_score st sr =
     (if subreddit_obj env sr then
        (case collect env (calls st) sr limit_per_subreddit of
           (subreddit_posts, tr) \<Rightarrow>
             foldl (process_post env keywords min_score sr)
               (st\<lparr>stats := (stats st)\<lparr>total_posts :=
                                         total_posts (stats st) + length subreddit_posts\<rparr>,
                   calls := tr\<rparr>)
               subreddit_posts)
      else st)"

definition initial_state :: run_state where
  "initial_state =
     \<lparr>all_leads = [], all_posts_explored = [],
      stats = \<lparr>total_posts = 0, posts_analyzed = 0, leads_found = 0\<rparr>, calls = []\<rparr>"

text \<open>
  \<open>track_leads_function\<close>; the clients it builds from the credentials are the services
  of \<open>env\<close>. It returns \<open>all_leads\<close>, \<open>all_posts_explored\<close> and \<open>stats\<close> of the final state.
\<close>

definition track_leads_function ::
  "env \<Rightarrow> string list \<Rightarrow> string list \<Rightarrow> int \<Rightarrow> int \<Rightarrow> run_state" where
  "track_leads_function env subreddits keywords limit_per_subreddit min_score =
     foldl (process_subreddit env keywords limit_per_subreddit min_score)
       initial_state subreddits"

section \<open>The search button\<close>

record credentials =
  openai_api_key :: string
  reddit_client_id :: string
  reddit_client_secret :: string
  reddit_username :: string
  reddit_password :: string

text \<open>
  The three messages of lines 669, 671 and 673: "Please fill in all API credentials!",
  "Please enter at least one subreddit!", "Please enter at least one keyword!".
\<close>

datatype input_error = NoCredentials | NoSubreddit | NoKeyword

text \<open>
  Lines 666-687: the checks, in the source's order, before the run. The result is the
  error shown or the state the run ends with; an error leaves no request behind.
\<close>

definition search_button ::
  "env \<Rightarrow> credentials \<Rightarrow> string list \<Rightarrow> string list \<Rightarrow> int \<Rightarrow> int
     \<Rightarrow> (input_error + run_state) \<times> call list" where
  "search_button env cr subreddits keywords posts_per_subreddit min_relevance_score =
     (if \<not> list_all (\<lambda>s. s \<noteq> [])
             [openai_api_key cr, reddit_client_id cr, reddit_client_secret cr,
              reddit_username cr, reddit_password cr]
      then (Inl NoCredentials, [])
      else if length subreddits = 0 then (Inl NoSubreddit, [])
      else if length keywords = 0 then (Inl NoKeyword, [])
      else (let st = track_leads_function env subreddits keywords posts_per_subreddit
                       min_relevance_score
            in (Inr st, calls st)))"

section \<open>Example inputs\<close>

text \<open>A well-formed submission with the given identifier and title and no body.\<close>

definition example_post :: "string \<Rightarrow> string \<Rightarrow> submission" where
  "example_post i t =
     \<lparr>s_id = i, s_title = Some t, s_selftext = None, s_author = Some (Some ''alice''),
      s_permalink = Some ''/r/datascience/comments/1'', s_created_utc = Some 1700000000,
      s_score = Some 12, s_num_comments = Some 3\<rparr>"

text \<open>
  A world in which every subreddit can be opened, the "new" listing holds the given
  posts, the other listings are empty and the agent answers as given.
\<close>

definition example_env ::
  "submission list \<Rightarrow> (call list \<Rightarrow> string \<Rightarrow> run_output option option) \<Rightarrow> env" where
  "example_env posts agent =
     \<lparr>subreddit_obj = (\<lambda>sr. True),
      listing = (\<lambda>tr sr strat lim. Some (if strat = New then posts else [])),
      agent_run = agent,
      strftime_date = (\<lambda>t. Some ''2023-11-14''),
      int_max_str_digits = 4300\<rparr>"


definition example_credentials :: credentials where
  "example_credentials =
     \<lparr>openai_api_key = ''sk-key'', reddit_client_id = ''id'', reddit_client_secret = ''secret'',
      reddit_username = ''user'', reddit_password = []\<rparr>"

section \<open>Properties of the score parser\<close>












section \<open>Properties of the search button\<close>

text \<open>
  Claim C8. When a credential is empty, or no subreddit or no keyword is given, the
  handler stops with an error and the run is not started: no request is made to Reddit
  or to the scoring agent.
\<close>

theorem C8_missing_input_no_request:
  assumes "openai_api_key cr = [] \<or> reddit_client_id cr = [] \<or> reddit_client_secret cr = []
           \<or> reddit_username cr = [] \<or> reddit_password cr = []
           \<or> subreddits = [] \<or> keywords = []"
  shows "\<exists>e. search_button env cr subreddits keywords posts_per_subreddit min_relevance_score
           = (Inl e, [])"
  using assms by (auto simp: search_button_def)

theorem C8_missing_input_no_request_witness:
  "\<exists>e. search_button (example_env [] (\<lambda>tr p. None)) example_credentials
          [''datascience''] [''kpi tracking''] 50 7 = (Inl e, [])"
  by (rule C8_missing_input_no_request) (simp add: example_credentials_def)

end
